theory Spec2Isabelle
  imports Main "HOL-Library.Word"
begin

section \<open>Python values used by the order module\<close>

text \<open>
  The exceptions that the modelled functions can raise. \<open>ProgrammingError\<close> and
  \<open>OperationalError\<close> are the ones of \<open>sqlite3\<close>; \<open>ProductNotFoundError\<close> is
  \<open>products.ProductNotFoundError\<close>.
\<close>

datatype error =
    ProductNotFoundError
  | KeyError
  | IndexError
  | EOFError
  | ValueError
  | OverflowError
  | ProgrammingError
  | OperationalError

text \<open>
  A method call either returns \<open>None\<close> (\<open>Inr ()\<close>) or raises (\<open>Inl e\<close>); the
  second component of a method's result is the object as the call leaves it.
\<close>

type_synonym outcome = "error + unit"

subsection \<open>Dictionaries\<close>

text \<open>
  A Python \<open>dict\<close> keeps its items in insertion order, so it is an association list
  (with pairwise different keys). Assigning to a present key keeps the key's place,
  assigning to an absent key appends, \<open>pop\<close> of an absent key raises \<open>KeyError\<close>.
\<close>

type_synonym ('k, 'v) dict = "('k \<times> 'v) list"

definition dict_get :: "('k, 'v) dict \<Rightarrow> 'k \<Rightarrow> 'v option" where
  "dict_get d k = map_of d k"

definition dict_keys :: "('k, 'v) dict \<Rightarrow> 'k list" where
  "dict_keys d = map fst d"

primrec dict_set :: "'k \<Rightarrow> 'v \<Rightarrow> ('k, 'v) dict \<Rightarrow> ('k, 'v) dict" where
  "dict_set k v [] = [(k, v)]"
| "dict_set k v (p # ps) = (if fst p = k then (k, v) # ps else p # dict_set k v ps)"

definition dict_del :: "'k \<Rightarrow> ('k, 'v) dict \<Rightarrow> ('k, 'v) dict" where
  "dict_del k d = filter (\<lambda>(k', v). k' \<noteq> k) d"

definition dict_pop :: "'k \<Rightarrow> ('k, 'v) dict \<Rightarrow> error + ('k, 'v) dict" where
  "dict_pop k d = (if k \<in> set (dict_keys d) then Inr (dict_del k d) else Inl KeyError)"

text \<open>Truth value of the result of \<open>dict.get\<close> on integer values: \<open>None\<close> and \<open>0\<close> are false.\<close>

fun truthy :: "int option \<Rightarrow> bool" where
  "truthy None = False"
| "truthy (Some v) = (v \<noteq> 0)"

subsection \<open>The product catalog\<close>

record product =
  name :: string
  price :: int

type_synonym catalog = "string \<rightharpoonup> product"

text \<open>
  Modelled from the spec: the module \<open>products\<close> is not part of the sources at hand.
  The spec gives its interface: \<open>exists(productID) -> bool\<close> and
  \<open>get(productID) -> {name, unitPrice}\<close>, which fails with \<open>ProductNotFound\<close> if the
  product is absent. The catalog itself is a parameter of every function that consults it.
\<close>

definition productExists :: "catalog \<Rightarrow> string \<Rightarrow> bool" where
  "productExists cat productUUID = (cat productUUID \<noteq> None)"

definition getProductByUUID :: "catalog \<Rightarrow> string \<Rightarrow> error + product" where
  "getProductByUUID cat productUUID =
     (case cat productUUID of None \<Rightarrow> Inl ProductNotFoundError | Some p \<Rightarrow> Inr p)"

section \<open>Orders\<close>

type_synonym uuid = "128 word"

record order =
  productList :: "(string, int) dict"
  orderID :: uuid

definition MAX_QUANTITY :: int where
  "MAX_QUANTITY = 25"

text \<open>\<open>BaseOrder.__init__\<close>; the result of \<open>uuid4()\<close> is an argument.\<close>

definition BaseOrder_init :: "uuid \<Rightarrow> order" where
  "BaseOrder_init uid = \<lparr>productList = [], orderID = uid\<rparr>"

text \<open>\<open>BaseOrder.addProduct\<close>\<close>

definition addProduct :: "catalog \<Rightarrow> string \<Rightarrow> order \<Rightarrow> outcome \<times> order" where
  "addProduct cat productUUID self =
     (if \<not> productExists cat productUUID then (Inl ProductNotFoundError, self)
      else case dict_get (productList self) productUUID of
          None \<Rightarrow> (Inr (), self\<lparr>productList := dict_set productUUID 1 (productList self)\<rparr>)
        | Some quantity \<Rightarrow>
            if quantity \<le> MAX_QUANTITY
            then (Inr (), self\<lparr>productList := dict_set productUUID (quantity + 1) (productList self)\<rparr>)
            else (Inr (), self))"

text \<open>\<open>BaseOrder.removeProduct\<close>\<close>

definition removeProduct :: "catalog \<Rightarrow> string \<Rightarrow> order \<Rightarrow> outcome \<times> order" where
  "removeProduct cat productUUID self =
     (if \<not> productExists cat productUUID then (Inl ProductNotFoundError, self)
      else case dict_get (productList self) productUUID of
          None \<Rightarrow> (Inr (), self)
        | Some val \<Rightarrow>
            if val = 1
            then (case dict_pop productUUID (productList self) of
                    Inl e \<Rightarrow> (Inl e, self)
                  | Inr d \<Rightarrow> (Inr (), self\<lparr>productList := d\<rparr>))
            else (Inr (), self\<lparr>productList := dict_set productUUID (val - 1) (productList self)\<rparr>))"

text \<open>\<open>BaseOrder.setQuantity\<close>\<close>

definition setQuantity :: "catalog \<Rightarrow> string \<Rightarrow> int \<Rightarrow> order \<Rightarrow> outcome \<times> order" where
  "setQuantity cat productUUID quantity self =
     (if \<not> productExists cat productUUID then (Inl ProductNotFoundError, self)
      else if quantity = 0
      then (case dict_pop productUUID (productList self) of
              Inl e \<Rightarrow> (Inl e, self)
            | Inr d \<Rightarrow> (Inr (), self\<lparr>productList := d\<rparr>))
      else if productUUID \<notin> set (dict_keys (productList self))
      then (Inr (), self\<lparr>productList := dict_set productUUID quantity (productList self)\<rparr>)
      else if quantity \<le> MAX_QUANTITY
      then (if truthy (dict_get (productList self) productUUID)
            then (Inr (), self\<lparr>productList := dict_set productUUID quantity (productList self)\<rparr>)
            else (Inr (), self))
      else (Inr (), self))"

text \<open>
  \<open>Order.__init__\<close>. The argument \<open>orderDict\<close> is \<open>None\<close> or a dictionary; an empty
  dictionary is false in \<open>if orderDict:\<close>. An item is kept when its quantity is true
  (not \<open>0\<close>) and its product exists.
\<close>

definition Order_init :: "catalog \<Rightarrow> uuid \<Rightarrow> (string, int) dict option \<Rightarrow> order" where
  "Order_init cat uid orderDict =
     (let self = BaseOrder_init uid in
      case orderDict of
        None \<Rightarrow> self
      | Some d \<Rightarrow>
          if d \<noteq> []
          then self\<lparr>productList := filter (\<lambda>(productUUID, quantity).
                                         quantity \<noteq> 0 \<and> productExists cat productUUID) d\<rparr>
          else self)"

text \<open>
  \<open>RandomOrder.__init__\<close>. \<open>allProducts\<close> is the result of
  \<open>SELECT uuid FROM products\<close>. The comprehension runs once for each element of
  \<open>range(numRandomProducts)\<close>; each run draws two random numbers, given here as a pair of
  naturals: \<open>random.choice\<close> takes the element at the first one reduced below the length
  of the sequence (and raises \<open>IndexError\<close> on an empty sequence), \<open>random.randint(1, 5)\<close>
  is \<open>1\<close> plus the second one reduced below \<open>5\<close>. A key drawn again overwrites its value.
\<close>

fun RandomOrder_items ::
  "string list \<Rightarrow> (nat \<times> nat) list \<Rightarrow> (string, int) dict \<Rightarrow> error + (string, int) dict" where
  "RandomOrder_items allProducts [] d = Inr d"
| "RandomOrder_items allProducts ((i, r) # draws) d =
     (if allProducts = [] then Inl IndexError
      else RandomOrder_items allProducts draws
             (dict_set (allProducts ! (i mod length allProducts)) (1 + int (r mod 5)) d))"

definition RandomOrder_init :: "uuid \<Rightarrow> string list \<Rightarrow> (nat \<times> nat) list \<Rightarrow> error + order" where
  "RandomOrder_init uid allProducts draws =
     (let self = BaseOrder_init uid in
      case RandomOrder_items allProducts draws [] of
        Inl e \<Rightarrow> Inl e
      | Inr d \<Rightarrow> Inr (self\<lparr>productList := d\<rparr>))"

text \<open>
  \<open>BaseOrder.totalPrice\<close>. The loop appends to \<open>prices\<close> and prints a diagnostic for an
  item whose product is not found; only \<open>products.ProductNotFoundError\<close> is caught.
  The result is the returned value (or the exception that escapes) and the lines printed.
\<close>

definition integrity_diagnostic :: string where
  "integrity_diagnostic =
     ''Something is very wrong with the order... '' @ [CHR 0x0A] @
     ''                this needs fixing. A product should not have been added to the '' @ [CHR 0x0A] @
     ''                order if it doesn'' @ [CHR 0x27] @ ''t exist in the database...''"

fun totalPrice_loop ::
  "catalog \<Rightarrow> (string, int) dict \<Rightarrow> int list \<Rightarrow> string list \<Rightarrow> (error + int list) \<times> string list" where
  "totalPrice_loop cat [] prices out = (Inr prices, out)"
| "totalPrice_loop cat ((productUUID, quantity) # items) prices out =
     (case getProductByUUID cat productUUID of
        Inr p \<Rightarrow> totalPrice_loop cat items (prices @ [price p * quantity]) out
      | Inl e \<Rightarrow>
          if e = ProductNotFoundError
          then totalPrice_loop cat items prices (out @ [integrity_diagnostic])
          else (Inl e, out))"

definition totalPrice :: "catalog \<Rightarrow> order \<Rightarrow> (error + int) \<times> string list" where
  "totalPrice cat self =
     (case totalPrice_loop cat (productList self) [] [] of
        (Inl e, out) \<Rightarrow> (Inl e, out)
      | (Inr prices, out) \<Rightarrow> (Inr (sum_list prices), out))"

subsection \<open>Sequences of calls\<close>

text \<open>
  A caller makes the three mutating calls in any order. An exception of one call goes to
  the caller; the order object stays as that call left it and the next call works on it.
\<close>

datatype call = AddProduct string | RemoveProduct string | SetQuantity string int

fun do_call :: "catalog \<Rightarrow> call \<Rightarrow> order \<Rightarrow> outcome \<times> order" where
  "do_call cat (AddProduct p) self = addProduct cat p self"
| "do_call cat (RemoveProduct p) self = removeProduct cat p self"
| "do_call cat (SetQuantity p q) self = setQuantity cat p q self"

fun run_calls :: "catalog \<Rightarrow> call list \<Rightarrow> order \<Rightarrow> order" where
  "run_calls cat [] self = self"
| "run_calls cat (c # cs) self = run_calls cat cs (snd (do_call cat c self))"

fun nonneg_call :: "call \<Rightarrow> bool" where
  "nonneg_call (SetQuantity p q) = (0 \<le> q)"
| "nonneg_call c = True"

definition positive_quantities :: "(string, int) dict \<Rightarrow> bool" where
  "positive_quantities d = list_all (\<lambda>(k, q). 0 < q) d"

text \<open>The catalog of the examples: product \<open>A\<close> at 150 cents, product \<open>B\<close> at 300 cents.\<close>

definition example_catalog :: catalog where
  "example_catalog =
     [''A'' \<mapsto> \<lparr>name = ''Product A'', price = 150\<rparr>, ''B'' \<mapsto> \<lparr>name = ''Product B'', price = 300\<rparr>]"

section \<open>Formatting cents\<close>









section \<open>The discounts database\<close>

text \<open>
  A row of the table \<open>discounts\<close> is the tuple that \<open>INSERT INTO discounts VALUES\<close> is
  given: \<open>(discountCode, percentage, dollarAmt, freeShipping, expirationDateTime)\<close>. The
  database file either has no table \<open>discounts\<close> (\<open>None\<close>) or has the table with its
  rows in insertion order.
\<close>

type_synonym discount_row = "string \<times> int option \<times> int option \<times> bool option \<times> string"

type_synonym database = "discount_row list option"

text \<open>
  \<open>CREATE TABLE discounts (discountCode text, percentage integer, dollarAmt integer,
  freeShipping boolean, expirationDateTime datetime)\<close>: the statement declares no
  \<open>PRIMARY KEY\<close>, \<open>UNIQUE\<close>, \<open>NOT NULL\<close> or \<open>CHECK\<close> constraint. It raises
  \<open>sqlite3.OperationalError\<close> when the table exists.
\<close>

definition create_table_discounts :: "database \<Rightarrow> error + database" where
  "create_table_discounts db =
     (case db of None \<Rightarrow> Inr (Some []) | Some rows \<Rightarrow> Inl OperationalError)"

text \<open>
  \<open>INSERT INTO discounts VALUES (?, ?, ?, ?, ?)\<close>: raises \<open>sqlite3.OperationalError\<close> when
  there is no such table, \<open>OverflowError\<close> when an integer does not fit the 64 bits of an
  SQLite integer, and otherwise appends the row; the table has no constraint that an
  insertion could violate.
\<close>

definition fits_sqlite_integer :: "int option \<Rightarrow> bool" where
  "fits_sqlite_integer x =
     (case x of None \<Rightarrow> True | Some v \<Rightarrow> - (2 ^ 63) \<le> v \<and> v < 2 ^ 63)"

definition insert_into_discounts :: "discount_row \<Rightarrow> database \<Rightarrow> error + database" where
  "insert_into_discounts row db =
     (case db of
        None \<Rightarrow> Inl OperationalError
      | Some rows \<Rightarrow>
          (case row of (discountCode, percentage, dollarAmt, freeShipping, expirationDateTime) \<Rightarrow>
             if fits_sqlite_integer percentage \<and> fits_sqlite_integer dollarAmt
             then Inr (Some (rows @ [row]))
             else Inl OverflowError))"

text \<open>
  \<open>initDiscountDatabase\<close>. The lines that \<open>input\<close> reads are an argument; \<open>input\<close> raises
  \<open>EOFError\<close> when there is no line left, and \<open>response[0]\<close> raises \<open>IndexError\<close> on an
  empty line.
\<close>

definition lower_char :: "char \<Rightarrow> char" where
  "lower_char c =
     (case map_of (zip ''ABCDEFGHIJKLMNOPQRSTUVWXYZ'' ''abcdefghijklmnopqrstuvwxyz'') c of
        None \<Rightarrow> c
      | Some l \<Rightarrow> l)"

fun initDiscountDatabase_loop :: "string \<Rightarrow> string list \<Rightarrow> database \<Rightarrow> outcome \<times> database" where
  "initDiscountDatabase_loop response inputs db =
     (case response of
        [] \<Rightarrow> (Inl IndexError, db)
      | c # cs \<Rightarrow>
          if lower_char c = CHR ''y''
          then (case create_table_discounts db of
                  Inl e \<Rightarrow> (Inl e, db)
                | Inr db' \<Rightarrow> (Inr (), db'))
          else if lower_char c = CHR ''n''
          then (Inr (), db)
          else (case inputs of
                  [] \<Rightarrow> (Inl EOFError, db)
                | response' # inputs' \<Rightarrow> initDiscountDatabase_loop response' inputs' db))"

definition initDiscountDatabase :: "string list \<Rightarrow> database \<Rightarrow> outcome \<times> database" where
  "initDiscountDatabase inputs db =
     (case inputs of
        [] \<Rightarrow> (Inl EOFError, db)
      | response # inputs' \<Rightarrow> initDiscountDatabase_loop response inputs' db)"

text \<open>\<open>_check_add_discount_args\<close>, with the five disjuncts in the order of the source.\<close>

definition check_add_discount_args :: "'a option \<Rightarrow> 'b option \<Rightarrow> 'c option \<Rightarrow> bool" where
  "check_add_discount_args arg0 arg1 arg2 =
     (if (arg0 = None \<and> arg1 = None \<and> arg2 = None)
         \<or> (arg0 = None \<and> arg1 \<noteq> None \<and> arg2 \<noteq> None)
         \<or> (arg0 \<noteq> None \<and> arg1 \<noteq> None \<and> arg2 = None)
         \<or> (arg0 \<noteq> None \<and> arg1 = None \<and> arg2 \<noteq> None)
         \<or> (arg0 \<noteq> None \<and> arg1 \<noteq> None \<and> arg2 \<noteq> None)
      then True
      else False)"

text \<open>
  \<open>addDiscountToDatabase\<close>. The argument \<open>expirationDate\<close> is \<open>None\<close> or a
  \<open>datetime\<close>, given by the text that its \<open>isoformat()\<close> returns.
\<close>

definition addDiscountToDatabase ::
  "string \<Rightarrow> int option \<Rightarrow> int option \<Rightarrow> bool option \<Rightarrow> string option \<Rightarrow> database
     \<Rightarrow> outcome \<times> database" where
  "addDiscountToDatabase discountCode percentage dollarAmt freeShipping expirationDate db =
     (if check_add_discount_args percentage dollarAmt freeShipping
      then (Inl ProgrammingError, db)
      else if (case percentage of None \<Rightarrow> False | Some v \<Rightarrow> v < 1 \<or> v > 100)
      then (Inl ValueError, db)
      else if (case dollarAmt of None \<Rightarrow> False | Some v \<Rightarrow> v < 1)
      then (Inl ValueError, db)
      else
        let expirationDate' = (case expirationDate of None \<Rightarrow> ''NULL'' | Some isoformat \<Rightarrow> isoformat) in
        case insert_into_discounts
               (discountCode, percentage, dollarAmt, freeShipping, expirationDate') db of
          Inl e \<Rightarrow> (Inl e, db)
        | Inr db' \<Rightarrow> (Inr (), db'))"

text \<open>The number of discount kinds that a call sets (arguments that are not \<open>None\<close>).\<close>

definition kinds_set :: "int option \<Rightarrow> int option \<Rightarrow> bool option \<Rightarrow> nat" where
  "kinds_set percentage dollarAmt freeShipping =
     (if percentage \<noteq> None then 1 else 0) + (if dollarAmt \<noteq> None then 1 else 0)
       + (if freeShipping \<noteq> None then 1 else 0)"

section \<open>Facts about dictionaries\<close>

lemma dict_get_set: "dict_get (dict_set k v d) k' = (if k' = k then Some v else dict_get d k')"
  by (induction d) (auto simp: dict_get_def)

lemma dict_get_None_iff: "dict_get d k = None \<longleftrightarrow> k \<notin> set (dict_keys d)"
  by (simp add: dict_get_def dict_keys_def map_of_eq_None_iff)

lemma dict_set_absent: "k \<notin> set (dict_keys d) \<Longrightarrow> dict_set k v d = d @ [(k, v)]"
  by (induction d) (auto simp: dict_keys_def)

lemma dict_set_same: "dict_get d k = Some v \<Longrightarrow> dict_set k v d = d"
  by (induction d) (auto simp: dict_get_def split: if_splits)

lemma dict_set_set: "dict_set k v (dict_set k w d) = dict_set k v d"
  by (induction d) auto

lemma dict_get_del: "dict_get (dict_del k d) k' = (if k' = k then None else dict_get d k')"
  by (induction d) (auto simp: dict_get_def dict_del_def)

lemma dict_del_absent: "k \<notin> set (dict_keys d) \<Longrightarrow> dict_del k d = d"
  by (induction d) (auto simp: dict_keys_def dict_del_def)

lemma dict_del_appended:
  "k \<notin> set (dict_keys d) \<Longrightarrow> dict_del k (d @ [(k, v)]) = d"
  using dict_del_absent [of k d] by (simp add: dict_del_def)

lemma dict_keys_del: "k \<notin> set (dict_keys (dict_del k d))"
  by (auto simp: dict_keys_def dict_del_def)


lemma dict_get_Some_keys: "dict_get d k = Some v \<Longrightarrow> k \<in> set (dict_keys d)"
  using dict_get_None_iff [of d k] by auto

section \<open>The mutating methods, case by case\<close>

lemma addProduct_absent:
  assumes "productExists cat p" and "p \<notin> set (dict_keys (productList self))"
  shows "addProduct cat p self = (Inr (), self\<lparr>productList := productList self @ [(p, 1)]\<rparr>)"
proof -
  from assms(2) have "dict_get (productList self) p = None"
    by (simp add: dict_get_None_iff)
  with assms show ?thesis
    by (simp add: addProduct_def dict_set_absent)
qed

lemma addProduct_present:
  assumes "productExists cat p" and "dict_get (productList self) p = Some v"
  shows "addProduct cat p self =
           (Inr (), if v \<le> MAX_QUANTITY
                    then self\<lparr>productList := dict_set p (v + 1) (productList self)\<rparr>
                    else self)"
  using assms by (simp add: addProduct_def)

lemma removeProduct_absent:
  assumes "productExists cat p" and "p \<notin> set (dict_keys (productList self))"
  shows "removeProduct cat p self = (Inr (), self)"
proof -
  from assms(2) have "dict_get (productList self) p = None"
    by (simp add: dict_get_None_iff)
  with assms show ?thesis
    by (simp add: removeProduct_def)
qed

lemma removeProduct_present:
  assumes "productExists cat p" and "dict_get (productList self) p = Some v"
  shows "removeProduct cat p self =
           (Inr (), if v = 1
                    then self\<lparr>productList := dict_del p (productList self)\<rparr>
                    else self\<lparr>productList := dict_set p (v - 1) (productList self)\<rparr>)"
  using assms dict_get_Some_keys [OF assms(2)] by (simp add: removeProduct_def dict_pop_def)

lemma setQuantity_absent:
  assumes "productExists cat p" and "q \<noteq> 0" and "p \<notin> set (dict_keys (productList self))"
  shows "setQuantity cat p q self = (Inr (), self\<lparr>productList := productList self @ [(p, q)]\<rparr>)"
  using assms by (simp add: setQuantity_def dict_set_absent)

lemma setQuantity_present:
  assumes "productExists cat p" and "q \<noteq> 0" and "dict_get (productList self) p = Some v"
  shows "setQuantity cat p q self =
           (Inr (), if q \<le> MAX_QUANTITY \<and> v \<noteq> 0
                    then self\<lparr>productList := dict_set p q (productList self)\<rparr>
                    else self)"
  using assms dict_get_Some_keys [OF assms(3)] by (simp add: setQuantity_def)

lemma example_catalog_A: "productExists example_catalog ''A''"
  by (simp add: productExists_def example_catalog_def)

lemma zero_quantity_reachable:
  "run_calls example_catalog [SetQuantity ''A'' (- 1), AddProduct ''A''] (BaseOrder_init 0)
     = \<lparr>productList = [(''A'', 0)], orderID = 0\<rparr>"
  by (simp add: setQuantity_def addProduct_def BaseOrder_init_def example_catalog_A
        dict_keys_def dict_get_def MAX_QUANTITY_def)

section \<open>Repeated \<open>addProduct\<close>\<close>

lemma addProduct_single:
  assumes "productExists cat p"
  shows "addProduct cat p \<lparr>productList = [(p, v)], orderID = uid\<rparr>
           = (Inr (), \<lparr>productList = [(p, if v \<le> MAX_QUANTITY then v + 1 else v)], orderID = uid\<rparr>)"
  using addProduct_present [OF assms, of "\<lparr>productList = [(p, v)], orderID = uid\<rparr>" v]
  by (simp add: dict_get_def)

lemma addProduct_repeated_from:
  assumes "productExists cat p" and "v \<le> MAX_QUANTITY + 1"
  shows "run_calls cat (replicate n (AddProduct p)) \<lparr>productList = [(p, v)], orderID = uid\<rparr>
           = \<lparr>productList = [(p, min (v + int n) (MAX_QUANTITY + 1))], orderID = uid\<rparr>"
  using assms(2)
proof (induction n arbitrary: v)
  case 0
  then show ?case by simp
next
  case (Suc n)
  show ?case
  proof (cases "v \<le> MAX_QUANTITY")
    case True
    then have "v + 1 \<le> MAX_QUANTITY + 1" by simp
    from Suc.IH [OF this] True show ?thesis
      by (simp add: addProduct_single [OF assms(1)] add.assoc)
  next
    case False
    with Suc.prems have "v = MAX_QUANTITY + 1" by simp
    with Suc.IH [of v] show ?thesis
      by (simp add: addProduct_single [OF assms(1)])
  qed
qed

lemma addProduct_repeated:
  assumes "productExists cat p" and "0 < n"
  shows "run_calls cat (replicate n (AddProduct p)) (BaseOrder_init uid)
           = \<lparr>productList = [(p, min (int n) (MAX_QUANTITY + 1))], orderID = uid\<rparr>"
proof -
  from assms(2) obtain m where n: "n = Suc m"
    by (cases n) auto
  have first: "snd (addProduct cat p (BaseOrder_init uid)) = \<lparr>productList = [(p, 1)], orderID = uid\<rparr>"
    using addProduct_absent [OF assms(1), of "BaseOrder_init uid"]
    by (simp add: BaseOrder_init_def dict_keys_def)
  have "(1::int) \<le> MAX_QUANTITY + 1"
    by (simp add: MAX_QUANTITY_def)
  from addProduct_repeated_from [OF assms(1) this, of m uid] first n
  show ?thesis by (simp add: add.commute)
qed

section \<open>Positive quantities\<close>

lemma positive_dict_set:
  "positive_quantities d \<Longrightarrow> 0 < v \<Longrightarrow> positive_quantities (dict_set k v d)"
  by (induction d) (auto simp: positive_quantities_def)

lemma positive_dict_del: "positive_quantities d \<Longrightarrow> positive_quantities (dict_del k d)"
  by (induction d) (auto simp: positive_quantities_def dict_del_def)

lemma positive_dict_get:
  "positive_quantities d \<Longrightarrow> dict_get d k = Some v \<Longrightarrow> 0 < v"
  by (induction d) (auto simp: positive_quantities_def dict_get_def split: if_splits)

lemma addProduct_positive:
  assumes "positive_quantities (productList self)"
  shows "positive_quantities (productList (snd (addProduct cat p self)))"
proof (cases "dict_get (productList self) p")
  case None
  with assms show ?thesis
    by (simp add: addProduct_def positive_dict_set)
next
  case (Some v)
  with assms have "0 < v + 1"
    using positive_dict_get [of "productList self" p v] by simp
  with assms Some show ?thesis
    by (simp add: addProduct_def positive_dict_set)
qed

lemma removeProduct_positive:
  assumes "positive_quantities (productList self)"
  shows "positive_quantities (productList (snd (removeProduct cat p self)))"
proof (cases "dict_get (productList self) p")
  case None
  with assms show ?thesis
    by (simp add: removeProduct_def)
next
  case (Some v)
  with assms have "0 < v"
    by (rule positive_dict_get)
  then have "v \<noteq> 1 \<Longrightarrow> 0 < v - 1"
    by simp
  with assms Some show ?thesis
    by (simp add: removeProduct_def dict_pop_def positive_dict_set positive_dict_del)
qed

lemma setQuantity_positive:
  assumes "positive_quantities (productList self)" and "0 \<le> q"
  shows "positive_quantities (productList (snd (setQuantity cat p q self)))"
proof (cases "q = 0")
  case True
  with assms show ?thesis
    by (simp add: setQuantity_def dict_pop_def positive_dict_del)
next
  case False
  with assms(2) have "0 < q" by simp
  with assms(1) show ?thesis
    by (simp add: setQuantity_def positive_dict_set)
qed

lemma do_call_positive:
  assumes "positive_quantities (productList self)" and "nonneg_call c"
  shows "positive_quantities (productList (snd (do_call cat c self)))"
  using assms
  by (cases c) (simp_all add: addProduct_positive removeProduct_positive setQuantity_positive)

lemma run_calls_positive:
  assumes "list_all nonneg_call calls" and "positive_quantities (productList self)"
  shows "positive_quantities (productList (run_calls cat calls self))"
  using assms
proof (induction calls arbitrary: self)
  case Nil
  then show ?case by simp
next
  case (Cons c cs)
  from Cons.prems have "positive_quantities (productList (snd (do_call cat c self)))"
    by (simp add: do_call_positive)
  with Cons.prems Cons.IH show ?case by simp
qed

lemma BaseOrder_init_positive: "positive_quantities (productList (BaseOrder_init uid))"
  by (simp add: BaseOrder_init_def positive_quantities_def)

lemma Order_init_positive:
  assumes "case orderDict of None \<Rightarrow> True | Some d \<Rightarrow> list_all (\<lambda>(k, q). 0 \<le> q) d"
  shows "positive_quantities (productList (Order_init cat uid orderDict))"
proof (cases orderDict)
  case None
  then show ?thesis
    by (simp add: Order_init_def BaseOrder_init_positive)
next
  case (Some d)
  with assms have "list_all (\<lambda>(k, q). 0 \<le> q) d" by simp
  then have "positive_quantities (filter (\<lambda>(k, q). q \<noteq> 0 \<and> productExists cat k) d)"
    by (induction d) (auto simp: positive_quantities_def)
  with Some show ?thesis
    by (simp add: Order_init_def Let_def BaseOrder_init_positive)
qed

lemma RandomOrder_items_positive:
  "positive_quantities d \<Longrightarrow> RandomOrder_items allProducts draws d = Inr d'
     \<Longrightarrow> positive_quantities d'"
proof (induction allProducts draws d rule: RandomOrder_items.induct)
  case (1 allProducts d)
  then show ?case by simp
next
  case (2 allProducts i r draws d)
  then show ?case
    by (simp add: positive_dict_set split: if_splits)
qed

lemma RandomOrder_items_returns:
  "allProducts \<noteq> [] \<or> draws = [] \<Longrightarrow> \<exists>d'. RandomOrder_items allProducts draws d = Inr d'"
  by (induction allProducts draws d rule: RandomOrder_items.induct) auto

lemma RandomOrder_init_returns:
  assumes "allProducts \<noteq> [] \<or> draws = []"
  shows "\<exists>self. RandomOrder_init uid allProducts draws = Inr self"
proof -
  from RandomOrder_items_returns [OF assms, of "[]"]
  obtain d where "RandomOrder_items allProducts draws [] = Inr d"
    by blast
  then show ?thesis
    by (simp add: RandomOrder_init_def)
qed

lemma RandomOrder_init_positive:
  assumes "RandomOrder_init uid allProducts draws = Inr self"
  shows "positive_quantities (productList self)"
proof -
  from assms obtain d where d: "RandomOrder_items allProducts draws [] = Inr d"
    and self: "self = (BaseOrder_init uid)\<lparr>productList := d\<rparr>"
    by (auto simp: RandomOrder_init_def split: sum.splits)
  have "positive_quantities []"
    by (simp add: positive_quantities_def)
  from RandomOrder_items_positive [OF this d] self show ?thesis
    by simp
qed

section \<open>The loop of \<open>totalPrice\<close>\<close>

lemma totalPrice_loop_eq:
  "totalPrice_loop cat items prices out =
     (Inr (prices @ concat (map (\<lambda>(k, q). case cat k of None \<Rightarrow> [] | Some p \<Rightarrow> [price p * q]) items)),
      out @ map (\<lambda>_. integrity_diagnostic) (filter (\<lambda>(k, q). cat k = None) items))"
proof (induction items arbitrary: prices out)
  case Nil
  show ?case by simp
next
  case (Cons item items)
  obtain k q where item: "item = (k, q)"
    by (cases item)
  show ?case
  proof (cases "cat k")
    case None
    with item Cons.IH show ?thesis
      by (simp add: getProductByUUID_def)
  next
    case (Some p)
    with item Cons.IH show ?thesis
      by (simp add: getProductByUUID_def)
  qed
qed

lemma sum_list_contributions:
  "sum_list (concat (map (\<lambda>(k, q). case cat k of None \<Rightarrow> [] | Some p \<Rightarrow> [price p * q]) items))
     = (\<Sum>(k, q)\<leftarrow>items. case cat k of None \<Rightarrow> 0 | Some p \<Rightarrow> price p * q)"
  by (induction items) (auto split: option.splits)

section \<open>Decimal digits\<close>
















section \<open>The check of the discount kinds\<close>

lemma check_add_discount_args_iff:
  "check_add_discount_args percentage dollarAmt freeShipping
     \<longleftrightarrow> kinds_set percentage dollarAmt freeShipping \<noteq> 1"
  by (cases percentage; cases dollarAmt; cases freeShipping)
     (simp_all add: check_add_discount_args_def kinds_set_def)

lemma insert_into_discounts_not_ProgrammingError:
  "insert_into_discounts row db \<noteq> Inl ProgrammingError"
  by (cases row) (simp add: insert_into_discounts_def split: option.splits)

section \<open>Properties of the order aggregate\<close>

text \<open>
  C9. For a product identifier that is absent from the catalog, each of \<open>addProduct\<close>,
  \<open>removeProduct\<close> and \<open>setQuantity\<close> raises \<open>ProductNotFoundError\<close> and leaves the
  whole order (\<open>productList\<close> and \<open>orderID\<close>) as it was.
\<close>

theorem invalid_product_raises_unchanged:
  assumes "\<not> productExists cat p"
  shows "addProduct cat p self = (Inl ProductNotFoundError, self)
       \<and> removeProduct cat p self = (Inl ProductNotFoundError, self)
       \<and> setQuantity cat p q self = (Inl ProductNotFoundError, self)"
  using assms by (simp add: addProduct_def removeProduct_def setQuantity_def)

theorem invalid_product_raises_unchanged_witness:
  "\<not> productExists [''a1'' \<mapsto> \<lparr>name = ''Apple'', price = 150\<rparr>] ''zz''
   \<and> addProduct [''a1'' \<mapsto> \<lparr>name = ''Apple'', price = 150\<rparr>] ''zz''
        \<lparr>productList = [(''a1'', 2)], orderID = 7\<rparr>
      = (Inl ProductNotFoundError, \<lparr>productList = [(''a1'', 2)], orderID = 7\<rparr>)
   \<and> removeProduct [''a1'' \<mapsto> \<lparr>name = ''Apple'', price = 150\<rparr>] ''zz''
        \<lparr>productList = [(''a1'', 2)], orderID = 7\<rparr>
      = (Inl ProductNotFoundError, \<lparr>productList = [(''a1'', 2)], orderID = 7\<rparr>)
   \<and> setQuantity [''a1'' \<mapsto> \<lparr>name = ''Apple'', price = 150\<rparr>] ''zz'' 3
        \<lparr>productList = [(''a1'', 2)], orderID = 7\<rparr>
      = (Inl ProductNotFoundError, \<lparr>productList = [(''a1'', 2)], orderID = 7\<rparr>)"
proof -
  have h: "\<not> productExists [''a1'' \<mapsto> \<lparr>name = ''Apple'', price = 150\<rparr>] ''zz''"
    by (simp add: productExists_def)
  from invalid_product_raises_unchanged [OF h, of "\<lparr>productList = [(''a1'', 2)], orderID = 7\<rparr>" 3] h
  show ?thesis by simp
qed

text \<open>
  C5. For a product of the catalog, \<open>setQuantity(p, 0)\<close> removes the entry of \<open>p\<close> when
  the order has one, and raises \<open>KeyError\<close> (the order unchanged) when it has none; in
  that same state \<open>removeProduct(p)\<close> returns normally and changes nothing.
\<close>

theorem setQuantity_zero_vs_removeProduct:
  assumes "productExists cat p"
  shows "(p \<in> set (dict_keys (productList self)) \<longrightarrow>
            setQuantity cat p 0 self = (Inr (), self\<lparr>productList := dict_del p (productList self)\<rparr>)
          \<and> p \<notin> set (dict_keys (productList (snd (setQuantity cat p 0 self)))))
       \<and> (p \<notin> set (dict_keys (productList self)) \<longrightarrow>
            setQuantity cat p 0 self = (Inl KeyError, self)
          \<and> removeProduct cat p self = (Inr (), self))"
  using assms removeProduct_absent [of cat p self]
  by (simp add: setQuantity_def dict_pop_def dict_keys_del)

theorem setQuantity_zero_vs_removeProduct_witness:
  "productExists example_catalog ''A''
   \<and> setQuantity example_catalog ''A'' 0 \<lparr>productList = [(''A'', 2), (''B'', 1)], orderID = 7\<rparr>
       = (Inr (), \<lparr>productList = [(''B'', 1)], orderID = 7\<rparr>)
   \<and> setQuantity example_catalog ''A'' 0 \<lparr>productList = [(''B'', 1)], orderID = 7\<rparr>
       = (Inl KeyError, \<lparr>productList = [(''B'', 1)], orderID = 7\<rparr>)
   \<and> removeProduct example_catalog ''A'' \<lparr>productList = [(''B'', 1)], orderID = 7\<rparr>
       = (Inr (), \<lparr>productList = [(''B'', 1)], orderID = 7\<rparr>)"
  using setQuantity_zero_vs_removeProduct [OF example_catalog_A,
          of "\<lparr>productList = [(''A'', 2), (''B'', 1)], orderID = 7\<rparr>"]
        setQuantity_zero_vs_removeProduct [OF example_catalog_A,
          of "\<lparr>productList = [(''B'', 1)], orderID = 7\<rparr>"]
  by (simp add: example_catalog_A dict_keys_def dict_del_def)

text \<open>
  C6, as the code has it. For a product of the catalog and \<open>q \<noteq> 0\<close>: when \<open>p\<close> is absent
  from the order, \<open>setQuantity(p, q)\<close> appends \<open>p\<close> with quantity \<open>q\<close>, whatever \<open>q\<close> is
  (no cap); when \<open>p\<close> is present with a stored quantity other than \<open>0\<close> and
  \<open>q \<le> MAX_QUANTITY\<close>, the entry is overwritten with \<open>q\<close>; when \<open>p\<close> is present with the
  stored quantity \<open>0\<close> and \<open>q \<le> MAX_QUANTITY\<close>, nothing changes (the guard
  \<open>if self.productList.get(productUUID)\<close> is false); when \<open>p\<close> is present and
  \<open>q > MAX_QUANTITY\<close>, nothing changes.
\<close>

theorem setQuantity_nonzero:
  assumes "productExists cat p" and "q \<noteq> 0"
  shows "(p \<notin> set (dict_keys (productList self)) \<longrightarrow>
            setQuantity cat p q self = (Inr (), self\<lparr>productList := productList self @ [(p, q)]\<rparr>))
       \<and> (\<forall>v. dict_get (productList self) p = Some v \<and> v \<noteq> 0 \<and> q \<le> MAX_QUANTITY \<longrightarrow>
            setQuantity cat p q self = (Inr (), self\<lparr>productList := dict_set p q (productList self)\<rparr>)
          \<and> dict_get (productList (snd (setQuantity cat p q self))) p = Some q)
       \<and> (dict_get (productList self) p = Some 0 \<and> q \<le> MAX_QUANTITY \<longrightarrow>
            setQuantity cat p q self = (Inr (), self))
       \<and> (p \<in> set (dict_keys (productList self)) \<and> MAX_QUANTITY < q \<longrightarrow>
            setQuantity cat p q self = (Inr (), self))"
proof (intro conjI impI allI)
  assume "p \<notin> set (dict_keys (productList self))"
  then show "setQuantity cat p q self = (Inr (), self\<lparr>productList := productList self @ [(p, q)]\<rparr>)"
    by (rule setQuantity_absent [OF assms])
next
  fix v
  assume "dict_get (productList self) p = Some v \<and> v \<noteq> 0 \<and> q \<le> MAX_QUANTITY"
  then show eq: "setQuantity cat p q self = (Inr (), self\<lparr>productList := dict_set p q (productList self)\<rparr>)"
    using setQuantity_present [OF assms, of self v] by simp
  then show "dict_get (productList (snd (setQuantity cat p q self))) p = Some q"
    by (simp add: dict_get_set)
next
  assume "dict_get (productList self) p = Some 0 \<and> q \<le> MAX_QUANTITY"
  then show "setQuantity cat p q self = (Inr (), self)"
    using setQuantity_present [OF assms, of self 0] by simp
next
  assume "p \<in> set (dict_keys (productList self)) \<and> MAX_QUANTITY < q"
  then show "setQuantity cat p q self = (Inr (), self)"
    using assms by (simp add: setQuantity_def)
qed

theorem setQuantity_nonzero_witness:
  "productExists example_catalog ''A'' \<and> (30::int) \<noteq> 0 \<and> (4::int) \<noteq> 0
   \<and> setQuantity example_catalog ''A'' 30 \<lparr>productList = [(''B'', 1)], orderID = 7\<rparr>
       = (Inr (), \<lparr>productList = [(''B'', 1), (''A'', 30)], orderID = 7\<rparr>)
   \<and> setQuantity example_catalog ''A'' 30 \<lparr>productList = [(''A'', 2), (''B'', 1)], orderID = 7\<rparr>
       = (Inr (), \<lparr>productList = [(''A'', 2), (''B'', 1)], orderID = 7\<rparr>)
   \<and> setQuantity example_catalog ''A'' 4 \<lparr>productList = [(''B'', 1), (''A'', 2)], orderID = 7\<rparr>
       = (Inr (), \<lparr>productList = [(''B'', 1), (''A'', 4)], orderID = 7\<rparr>)
   \<and> setQuantity example_catalog ''A'' 4 \<lparr>productList = [(''A'', 0)], orderID = 7\<rparr>
       = (Inr (), \<lparr>productList = [(''A'', 0)], orderID = 7\<rparr>)"
proof -
  have thirty: "(30::int) \<noteq> 0" and four: "(4::int) \<noteq> 0"
    by simp_all
  have "setQuantity example_catalog ''A'' 30 \<lparr>productList = [(''B'', 1)], orderID = 7\<rparr>
       = (Inr (), \<lparr>productList = [(''B'', 1), (''A'', 30)], orderID = 7\<rparr>)"
    using setQuantity_nonzero [OF example_catalog_A thirty,
            of "\<lparr>productList = [(''B'', 1)], orderID = 7\<rparr>"]
    by (simp add: dict_keys_def)
  moreover
  have "setQuantity example_catalog ''A'' 30 \<lparr>productList = [(''A'', 2), (''B'', 1)], orderID = 7\<rparr>
       = (Inr (), \<lparr>productList = [(''A'', 2), (''B'', 1)], orderID = 7\<rparr>)"
    using setQuantity_nonzero [OF example_catalog_A thirty,
            of "\<lparr>productList = [(''A'', 2), (''B'', 1)], orderID = 7\<rparr>"]
    by (simp add: dict_keys_def MAX_QUANTITY_def)
  moreover
  have "setQuantity example_catalog ''A'' 4 \<lparr>productList = [(''B'', 1), (''A'', 2)], orderID = 7\<rparr>
       = (Inr (), \<lparr>productList = [(''B'', 1), (''A'', 4)], orderID = 7\<rparr>)"
    using setQuantity_nonzero [OF example_catalog_A four,
            of "\<lparr>productList = [(''B'', 1), (''A'', 2)], orderID = 7\<rparr>"]
    by (simp add: dict_get_def MAX_QUANTITY_def)
  moreover
  have "setQuantity example_catalog ''A'' 4 \<lparr>productList = [(''A'', 0)], orderID = 7\<rparr>
       = (Inr (), \<lparr>productList = [(''A'', 0)], orderID = 7\<rparr>)"
    using setQuantity_nonzero [OF example_catalog_A four,
            of "\<lparr>productList = [(''A'', 0)], orderID = 7\<rparr>"]
    by (simp add: dict_get_def MAX_QUANTITY_def)
  ultimately show ?thesis
    using example_catalog_A by simp
qed

text \<open>
  C6 as stated fails: the order \<open>{A: 0}\<close>, which \<open>setQuantity(A, -1)\<close> and then
  \<open>addProduct(A)\<close> produce from an empty order, is left unchanged by \<open>setQuantity(A, 5)\<close>.
\<close>

theorem setQuantity_present_counterexample:
  "productExists example_catalog ''A''
   \<and> run_calls example_catalog [SetQuantity ''A'' (- 1), AddProduct ''A''] (BaseOrder_init 0)
       = \<lparr>productList = [(''A'', 0)], orderID = 0\<rparr>
   \<and> ''A'' \<in> set (dict_keys [(''A'', 0::int)])
   \<and> (5::int) \<noteq> 0 \<and> 5 \<le> MAX_QUANTITY
   \<and> setQuantity example_catalog ''A'' 5 \<lparr>productList = [(''A'', 0)], orderID = 0\<rparr>
       = (Inr (), \<lparr>productList = [(''A'', 0)], orderID = 0\<rparr>)
   \<and> dict_get (productList (snd (setQuantity example_catalog ''A'' 5
         \<lparr>productList = [(''A'', 0)], orderID = 0\<rparr>))) ''A'' \<noteq> Some 5"
  using zero_quantity_reachable
  by (simp add: setQuantity_def example_catalog_A dict_keys_def dict_get_def MAX_QUANTITY_def)

text \<open>
  C10, as the code has it. For a product of the catalog that is absent from the order, or
  present with a quantity other than \<open>0\<close> and at most \<open>MAX_QUANTITY\<close>, \<open>addProduct(p)\<close>
  followed by \<open>removeProduct(p)\<close> gives back the order exactly as it was, and neither call
  raises.
\<close>

theorem add_then_remove_restores:
  assumes valid: "productExists cat p"
    and qty: "dict_get (productList self) p = None
         \<or> (\<exists>v. dict_get (productList self) p = Some v \<and> v \<noteq> 0 \<and> v \<le> MAX_QUANTITY)"
  shows "fst (addProduct cat p self) = Inr ()
       \<and> removeProduct cat p (snd (addProduct cat p self)) = (Inr (), self)"
  using qty
proof
  assume "dict_get (productList self) p = None"
  then have absent: "p \<notin> set (dict_keys (productList self))"
    by (simp add: dict_get_None_iff)
  let ?s = "self\<lparr>productList := productList self @ [(p, 1)]\<rparr>"
  have add: "addProduct cat p self = (Inr (), ?s)"
    by (rule addProduct_absent [OF valid absent])
  have "dict_get (productList ?s) p = Some 1"
    using dict_get_set [of p 1 "productList self" p] absent
    by (simp add: dict_set_absent)
  then have "removeProduct cat p ?s = (Inr (), self)"
    using removeProduct_present [OF valid, of ?s 1] absent
    by (simp add: dict_del_appended)
  with add show ?thesis by simp
next
  assume "\<exists>v. dict_get (productList self) p = Some v \<and> v \<noteq> 0 \<and> v \<le> MAX_QUANTITY"
  then obtain v where v: "dict_get (productList self) p = Some v" "v \<noteq> 0" "v \<le> MAX_QUANTITY"
    by blast
  let ?s = "self\<lparr>productList := dict_set p (v + 1) (productList self)\<rparr>"
  have add: "addProduct cat p self = (Inr (), ?s)"
    using addProduct_present [OF valid v(1)] v(3) by simp
  have "dict_get (productList ?s) p = Some (v + 1)"
    by (simp add: dict_get_set)
  then have "removeProduct cat p ?s = (Inr (), self)"
    using removeProduct_present [OF valid, of ?s "v + 1"] v(1,2)
    by (simp add: dict_set_set dict_set_same)
  with add show ?thesis by simp
qed

theorem add_then_remove_restores_witness:
  "productExists example_catalog ''A''
   \<and> dict_get [(''A'', 25::int), (''B'', 1)] ''A'' = Some 25 \<and> (25::int) \<noteq> 0 \<and> 25 \<le> MAX_QUANTITY
   \<and> addProduct example_catalog ''A'' \<lparr>productList = [(''A'', 25), (''B'', 1)], orderID = 7\<rparr>
       = (Inr (), \<lparr>productList = [(''A'', 26), (''B'', 1)], orderID = 7\<rparr>)
   \<and> removeProduct example_catalog ''A'' \<lparr>productList = [(''A'', 26), (''B'', 1)], orderID = 7\<rparr>
       = (Inr (), \<lparr>productList = [(''A'', 25), (''B'', 1)], orderID = 7\<rparr>)"
proof -
  have q: "dict_get [(''A'', 25::int), (''B'', 1)] ''A'' = Some 25 \<and> (25::int) \<noteq> 0 \<and> 25 \<le> MAX_QUANTITY"
    by (simp add: dict_get_def MAX_QUANTITY_def)
  have add: "addProduct example_catalog ''A'' \<lparr>productList = [(''A'', 25), (''B'', 1)], orderID = 7\<rparr>
       = (Inr (), \<lparr>productList = [(''A'', 26), (''B'', 1)], orderID = 7\<rparr>)"
    by (simp add: addProduct_def example_catalog_A dict_get_def MAX_QUANTITY_def)
  from add_then_remove_restores [OF example_catalog_A,
         of "\<lparr>productList = [(''A'', 25), (''B'', 1)], orderID = 7\<rparr>"] q add
  show ?thesis by (simp add: example_catalog_A)
qed

text \<open>
  C10 as stated fails at the stored quantity \<open>0\<close>: from \<open>{A: 0}\<close>, \<open>addProduct(A)\<close> gives
  \<open>{A: 1}\<close> and \<open>removeProduct(A)\<close> then removes the entry.
\<close>

theorem add_then_remove_counterexample:
  "productExists example_catalog ''A''
   \<and> run_calls example_catalog [SetQuantity ''A'' (- 1), AddProduct ''A''] (BaseOrder_init 0)
       = \<lparr>productList = [(''A'', 0)], orderID = 0\<rparr>
   \<and> dict_get [(''A'', 0::int)] ''A'' = Some 0 \<and> 0 \<le> MAX_QUANTITY
   \<and> productList (snd (removeProduct example_catalog ''A''
        (snd (addProduct example_catalog ''A'' \<lparr>productList = [(''A'', 0)], orderID = 0\<rparr>)))) = []
   \<and> productList (snd (removeProduct example_catalog ''A''
        (snd (addProduct example_catalog ''A'' \<lparr>productList = [(''A'', 0)], orderID = 0\<rparr>))))
       \<noteq> [(''A'', 0)]"
  using zero_quantity_reachable
  by (simp add: removeProduct_def addProduct_def example_catalog_A dict_keys_def dict_get_def
        dict_pop_def dict_del_def MAX_QUANTITY_def)

text \<open>
  C1. The claim is that \<open>addProduct\<close> never takes a quantity above \<open>MAX_QUANTITY\<close>, and
  that \<open>n\<close> calls from an empty order give \<open>min(n, MAX_QUANTITY)\<close>. The guard of the code is
  \<open>quantity <= self.MAX_QUANTITY\<close>, so a product at quantity \<open>25\<close> is incremented once
  more: \<open>25\<close> calls give \<open>25\<close>, the next call gives \<open>26\<close>.
\<close>

theorem addProduct_exceeds_MAX_QUANTITY:
  "productExists example_catalog ''A''
   \<and> run_calls example_catalog (replicate 25 (AddProduct ''A'')) (BaseOrder_init 0)
       = \<lparr>productList = [(''A'', 25)], orderID = 0\<rparr>
   \<and> addProduct example_catalog ''A'' \<lparr>productList = [(''A'', 25)], orderID = 0\<rparr>
       = (Inr (), \<lparr>productList = [(''A'', 26)], orderID = 0\<rparr>)
   \<and> run_calls example_catalog (replicate 26 (AddProduct ''A'')) (BaseOrder_init 0)
       = \<lparr>productList = [(''A'', 26)], orderID = 0\<rparr>
   \<and> MAX_QUANTITY < 26 \<and> min (26::int) MAX_QUANTITY = 25"
  using addProduct_repeated [OF example_catalog_A, of 25 0]
        addProduct_repeated [OF example_catalog_A, of 26 0]
        addProduct_single [OF example_catalog_A, of 25 0]
  by (simp add: MAX_QUANTITY_def example_catalog_A)

text \<open>
  C3, as the code has it. Start from an order made by a constructor (\<open>BaseOrder\<close>;
  \<open>Order\<close> with no dictionary or with a dictionary that has no negative quantity;
  \<open>RandomOrder\<close>) and make any sequence of \<open>addProduct\<close>, \<open>removeProduct\<close> and
  \<open>setQuantity\<close> calls in which no \<open>setQuantity\<close> is given a negative quantity: every
  entry of \<open>productList\<close> has a strictly positive quantity. (\<open>RandomOrder\<close> returns an
  order whenever the product table has a row or no product is asked for.)
\<close>

theorem quantities_stay_positive:
  assumes "list_all nonneg_call calls"
  shows "positive_quantities (productList (run_calls cat calls (BaseOrder_init uid)))
       \<and> ((case orderDict of None \<Rightarrow> True | Some d \<Rightarrow> list_all (\<lambda>(k, q). 0 \<le> q) d) \<longrightarrow>
            positive_quantities (productList (run_calls cat calls (Order_init cat uid orderDict))))
       \<and> (allProducts \<noteq> [] \<or> draws = [] \<longrightarrow>
            (\<exists>self. RandomOrder_init uid allProducts draws = Inr self))
       \<and> (\<forall>self. RandomOrder_init uid allProducts draws = Inr self \<longrightarrow>
            positive_quantities (productList (run_calls cat calls self)))"
  using run_calls_positive [OF assms] BaseOrder_init_positive Order_init_positive
    RandomOrder_init_positive RandomOrder_init_returns
  by blast

theorem quantities_stay_positive_witness:
  "list_all nonneg_call [AddProduct ''A'', SetQuantity ''B'' 3, RemoveProduct ''A'', SetQuantity ''B'' 0, SetQuantity ''B'' 0]
   \<and> list_all (\<lambda>(k, q). 0 \<le> q) [(''A'', 2::int), (''B'', 0), (''C'', 4)]
   \<and> run_calls example_catalog
        [AddProduct ''A'', SetQuantity ''B'' 3, RemoveProduct ''A'', SetQuantity ''B'' 0, SetQuantity ''B'' 0]
        (Order_init example_catalog 7 (Some [(''A'', 2), (''B'', 0), (''C'', 4)]))
       = \<lparr>productList = [(''A'', 2)], orderID = 7\<rparr>
   \<and> positive_quantities (productList (run_calls example_catalog
        [AddProduct ''A'', SetQuantity ''B'' 3, RemoveProduct ''A'', SetQuantity ''B'' 0, SetQuantity ''B'' 0]
        (Order_init example_catalog 7 (Some [(''A'', 2), (''B'', 0), (''C'', 4)]))))
   \<and> RandomOrder_init 7 [''A'', ''B''] [(3, 9), (0, 2), (5, 4)]
       = Inr \<lparr>productList = [(''B'', 5), (''A'', 3)], orderID = 7\<rparr>
   \<and> positive_quantities (productList (run_calls example_catalog
        [AddProduct ''A'', SetQuantity ''B'' 3, RemoveProduct ''A'', SetQuantity ''B'' 0, SetQuantity ''B'' 0]
        \<lparr>productList = [(''B'', 5), (''A'', 3)], orderID = 7\<rparr>))"
proof -
  let ?calls = "[AddProduct ''A'', SetQuantity ''B'' 3, RemoveProduct ''A'', SetQuantity ''B'' 0, SetQuantity ''B'' 0]"
  have calls: "list_all nonneg_call ?calls"
    by simp
  have dict: "list_all (\<lambda>(k, q). 0 \<le> q) [(''A'', 2::int), (''B'', 0), (''C'', 4)]"
    by simp
  have B: "productExists example_catalog ''B''" and C: "\<not> productExists example_catalog ''C''"
    by (simp_all add: productExists_def example_catalog_def)
  have run: "run_calls example_catalog ?calls
        (Order_init example_catalog 7 (Some [(''A'', 2), (''B'', 0), (''C'', 4)]))
       = \<lparr>productList = [(''A'', 2)], orderID = 7\<rparr>"
    by (simp add: Order_init_def BaseOrder_init_def addProduct_def removeProduct_def setQuantity_def
          example_catalog_A B C dict_get_def dict_keys_def dict_pop_def dict_del_def MAX_QUANTITY_def)
  have rnd: "RandomOrder_init 7 [''A'', ''B''] [(3, 9), (0, 2), (5, 4)]
       = Inr \<lparr>productList = [(''B'', 5), (''A'', 3)], orderID = 7\<rparr>"
    by code_simp
  from quantities_stay_positive [OF calls, of example_catalog 7
         "Some [(''A'', 2), (''B'', 0), (''C'', 4)]" "[''A'', ''B'']" "[(3, 9), (0, 2), (5, 4)]"]
    calls dict run rnd
  show ?thesis by simp
qed

text \<open>
  C3 as stated fails: nothing in the code rejects a negative quantity. \<open>Order({A: -3})\<close>
  keeps the entry (\<open>-3\<close> is true), and \<open>setQuantity(A, -5)\<close> on an empty order stores
  \<open>-5\<close>.
\<close>

theorem quantities_positive_counterexample:
  "productExists example_catalog ''A''
   \<and> productList (Order_init example_catalog 0 (Some [(''A'', - 3)])) = [(''A'', - 3)]
   \<and> \<not> positive_quantities (productList (Order_init example_catalog 0 (Some [(''A'', - 3)])))
   \<and> productList (run_calls example_catalog [SetQuantity ''A'' (- 5)] (BaseOrder_init 0)) = [(''A'', - 5)]
   \<and> \<not> positive_quantities
         (productList (run_calls example_catalog [SetQuantity ''A'' (- 5)] (BaseOrder_init 0)))"
  by (simp add: Order_init_def BaseOrder_init_def setQuantity_def example_catalog_A
        dict_keys_def positive_quantities_def)

text \<open>
  C7. For every order, \<open>totalPrice\<close> returns (no exception escapes) the sum over the
  entries of \<open>productList\<close> of the catalog price of the product times the quantity, in
  cents; an entry whose product is absent from the catalog adds nothing to the sum and
  prints one diagnostic. The order \<open>{A: 2, B: 1}\<close> with \<open>A\<close> at 150 and \<open>B\<close> at 300 cents
  has the total 600.
\<close>

theorem totalPrice_is_catalog_sum:
  "fst (totalPrice cat self)
     = Inr (\<Sum>(k, q)\<leftarrow>productList self. case cat k of None \<Rightarrow> 0 | Some p \<Rightarrow> price p * q)
   \<and> snd (totalPrice cat self)
     = replicate (length (filter (\<lambda>(k, q). cat k = None) (productList self))) integrity_diagnostic
   \<and> totalPrice example_catalog \<lparr>productList = [(''A'', 2), (''B'', 1)], orderID = uid\<rparr> = (Inr 600, [])
   \<and> totalPrice example_catalog \<lparr>productList = [(''A'', 2), (''Z'', 9), (''B'', 1)], orderID = uid\<rparr>
       = (Inr 600, [integrity_diagnostic])"
proof -
  have general: "totalPrice cat s =
      (Inr (\<Sum>(k, q)\<leftarrow>productList s. case cat k of None \<Rightarrow> 0 | Some p \<Rightarrow> price p * q),
       replicate (length (filter (\<lambda>(k, q). cat k = None) (productList s))) integrity_diagnostic)"
    for cat s
    by (simp add: totalPrice_def totalPrice_loop_eq sum_list_contributions map_replicate_const)
  have "totalPrice example_catalog \<lparr>productList = [(''A'', 2), (''B'', 1)], orderID = uid\<rparr>
          = (Inr 600, [])"
    by (simp add: general example_catalog_def)
  moreover
  have "totalPrice example_catalog \<lparr>productList = [(''A'', 2), (''Z'', 9), (''B'', 1)], orderID = uid\<rparr>
          = (Inr 600, [integrity_diagnostic])"
    by (simp add: general example_catalog_def)
  ultimately show ?thesis
    by (simp add: general)
qed

section \<open>Properties of the formatting helper\<close>




section \<open>Properties of the discount store\<close>

text \<open>
  C4. For every combination of \<open>percentage\<close>, \<open>dollarAmt\<close> and \<open>freeShipping\<close> (and
  every code, expiration date and database), \<open>addDiscountToDatabase\<close> raises
  \<open>sqlite3.ProgrammingError\<close>, the constraint violation of the specification, if and
  only if the number of arguments among the three that are not \<open>None\<close> is not exactly one.
\<close>

theorem addDiscountToDatabase_exactly_one:
  "fst (addDiscountToDatabase discountCode percentage dollarAmt freeShipping expirationDate db)
       = Inl ProgrammingError
     \<longleftrightarrow> kinds_set percentage dollarAmt freeShipping \<noteq> 1"
proof (cases "check_add_discount_args percentage dollarAmt freeShipping")
  case True
  then have "kinds_set percentage dollarAmt freeShipping \<noteq> 1"
    using check_add_discount_args_iff [of percentage dollarAmt freeShipping] by blast
  with True show ?thesis
    by (simp add: addDiscountToDatabase_def)
next
  case False
  then have "fst (addDiscountToDatabase discountCode percentage dollarAmt freeShipping expirationDate db)
       \<noteq> Inl ProgrammingError"
    using insert_into_discounts_not_ProgrammingError
    by (auto simp: addDiscountToDatabase_def Let_def split: sum.splits)
  with False show ?thesis
    by (simp add: check_add_discount_args_iff)
qed

theorem addDiscountToDatabase_exactly_one_witness:
  "kinds_set None None None = 0
   \<and> fst (addDiscountToDatabase ''X10'' None None None None (Some [])) = Inl ProgrammingError
   \<and> kinds_set (Some 10) (Some 500) None = 2
   \<and> fst (addDiscountToDatabase ''X10'' (Some 10) (Some 500) None None (Some [])) = Inl ProgrammingError
   \<and> kinds_set (Some 10) (Some 500) (Some True) = 3
   \<and> fst (addDiscountToDatabase ''X10'' (Some 10) (Some 500) (Some True) None (Some []))
       = Inl ProgrammingError
   \<and> kinds_set (Some 150) None None = 1
   \<and> fst (addDiscountToDatabase ''X10'' (Some 150) None None None (Some [])) = Inl ValueError
   \<and> kinds_set None None (Some False) = 1
   \<and> addDiscountToDatabase ''SHIP'' None None (Some False) None (Some [])
       = (Inr (), Some [(''SHIP'', None, None, Some False, ''NULL'')])"
  using addDiscountToDatabase_exactly_one [of "''X10''" None None None None "Some []"]
    addDiscountToDatabase_exactly_one [of "''X10''" "Some 10" "Some 500" None None "Some []"]
    addDiscountToDatabase_exactly_one [of "''X10''" "Some 10" "Some 500" "Some True" None "Some []"]
  by (simp add: kinds_set_def addDiscountToDatabase_def check_add_discount_args_def
        insert_into_discounts_def fits_sqlite_integer_def)

text \<open>
  C2. The claim is that adding a code that an earlier successful call added fails and
  inserts no second row. The table that \<open>initDiscountDatabase\<close> creates has no primary
  key, so on a freshly initialised store the call for \<open>X10\<close> with \<open>percentage=10\<close>
  succeeds twice and the table then holds two rows with the code \<open>X10\<close>.
\<close>

theorem duplicate_discount_code_inserted_twice:
  "initDiscountDatabase [''y''] None = (Inr (), Some [])
   \<and> addDiscountToDatabase ''X10'' (Some 10) None None None (Some [])
       = (Inr (), Some [(''X10'', Some 10, None, None, ''NULL'')])
   \<and> addDiscountToDatabase ''X10'' (Some 10) None None None
         (Some [(''X10'', Some 10, None, None, ''NULL'')])
       = (Inr (), Some [(''X10'', Some 10, None, None, ''NULL''),
                        (''X10'', Some 10, None, None, ''NULL'')])"
  by (simp add: initDiscountDatabase_def create_table_discounts_def lower_char_def
        addDiscountToDatabase_def check_add_discount_args_def
        insert_into_discounts_def fits_sqlite_integer_def)

end
